theory Spec2Isabelle
  imports Main "HOL-Library.AList"
begin

section \<open>Python values, exceptions and dictionaries\<close>

text \<open>
  The values that flow through properties, conditions and SQL parameters. A comparison
  function of \<^verbatim>\<open>kalamar.utils\<close> is a value too (the second component of a condition);
  it is identified by a number.
\<close>

datatype pyval = PyNone | PyStr string | PyInt int | PyFunc nat

text \<open>
  Every exception the two modules can raise, by class name. \<open>Raised\<close> stands for an exception
  of foreign code (an opener, a parser of a subclass, the database driver).
\<close>

datatype error =
    KeyError
  | IndexError
  | NameError
  | TypeError
  | AttributeError
  | ValueError
  | NotImplementedError
  | ManyItemsUpdatedError
  | UnsupportedParameterStyleError
  | Raised string

text \<open>
  A \<^verbatim>\<open>dict\<close> is an association list with distinct keys, in insertion order.
  \<^verbatim>\<open>d[k] = v\<close> on a built-in dictionary replaces or appends, and never raises.
\<close>

type_synonym pydict = "(string \<times> pyval) list"

definition dict_getitem :: "pydict \<Rightarrow> string \<Rightarrow> error + pyval" where
  "dict_getitem d k = (case map_of d k of None \<Rightarrow> Inl KeyError | Some v \<Rightarrow> Inr v)"

definition dict_setitem :: "pydict \<Rightarrow> string \<Rightarrow> pyval \<Rightarrow> error + pydict" where
  "dict_setitem d k v = Inr (AList.update k v d)"

definition dict_delitem :: "pydict \<Rightarrow> string \<Rightarrow> error + pydict" where
  "dict_delitem d k = (case map_of d k of None \<Rightarrow> Inl KeyError | Some _ \<Rightarrow> Inr (AList.delete k d))"

fun dict_update :: "('k \<times> 'v) list \<Rightarrow> ('k \<times> 'v) list \<Rightarrow> ('k \<times> 'v) list" where
  "dict_update d [] = d"
| "dict_update d ((k, v) # kvs) = dict_update (AList.update k v d) kvs"

definition dict_keys :: "pydict \<Rightarrow> string list" where
  "dict_keys d = map fst d"

text \<open>\<^verbatim>\<open>aliases.get(key, key)\<close>: one step through the alias table, the key itself when absent.\<close>

definition alias_get :: "(string \<times> string) list \<Rightarrow> string \<Rightarrow> string" where
  "alias_get al key = (case map_of al key of None \<Rightarrow> key | Some c \<Rightarrow> c)"

section \<open>Items and their properties (\<^verbatim>\<open>kalamar/item.py\<close>)\<close>

text \<open>
  \<^verbatim>\<open>ItemProperties.__init__\<close> stores the dictionary it is given, not a copy:
  \<^verbatim>\<open>self.storage_properties = storage_properties\<close>. Dictionaries passed around by
  reference therefore live in a store, and an \<^verbatim>\<open>ItemProperties\<close> holds the address of
  its storage dictionary. The snapshot \<^verbatim>\<open>storage_properties_old\<close> is a deep copy, hence
  a value. \<open>own\<close> is the content of the \<^verbatim>\<open>dict\<close> the object itself is (its superclass part).
\<close>

type_synonym addr = nat
type_synonym heap = "addr \<Rightarrow> pydict"

record item_properties =
  storage_properties :: addr
  storage_properties_old :: pydict
  own :: pydict
  loaded :: bool

text \<open>
  An \<^verbatim>\<open>Item\<close>. \<open>custom_parse_data\<close> is the method \<^verbatim>\<open>_custom_parse_data\<close> of the
  item's class, reading \<^verbatim>\<open>self._stream\<close>; \<open>parse_data_calls\<close> is a ghost counter of the
  calls of \<^verbatim>\<open>_parse_data\<close>, which the program itself does not keep.
\<close>

record item =
  opener :: "unit \<Rightarrow> error + string"
  stream :: "string option"
  properties :: item_properties
  aliases :: "(string \<times> string) list"
  aliases_rev :: "(string \<times> nat) list"
  custom_parse_data :: "string option \<Rightarrow> error + pydict"
  parse_data_calls :: nat

text \<open>
  The default value \<^verbatim>\<open>{}\<close> of \<^verbatim>\<open>accessor_properties\<close> (and of
  \<^verbatim>\<open>storage_properties\<close>) is evaluated once, when the function is defined: one dictionary,
  at one address, for every call that omits the argument.
\<close>

definition accessor_properties_default :: addr where
  "accessor_properties_default = 0"

definition initial_heap :: heap where
  "initial_heap = (\<lambda>_. [])"

definition ItemProperties_init :: "heap \<Rightarrow> addr \<Rightarrow> item_properties" where
  "ItemProperties_init h sp =
     \<lparr>storage_properties = sp, storage_properties_old = h sp, own = [], loaded = False\<rparr>"

definition Item_init ::
  "heap \<Rightarrow> (string \<times> string) list \<Rightarrow> (unit \<Rightarrow> error + string) \<Rightarrow> addr
     \<Rightarrow> (string option \<Rightarrow> error + pydict) \<Rightarrow> item" where
  "Item_init h parser_aliases opnr accessor_properties parse =
     \<lparr>opener = opnr, stream = None,
      properties = ItemProperties_init h accessor_properties,
      aliases = parser_aliases,
      aliases_rev = zip (map fst parser_aliases) [0 ..< length parser_aliases],
      custom_parse_data = parse,
      parse_data_calls = 0\<rparr>"

text \<open>The class \<^verbatim>\<open>Item\<close> itself is abstract: its \<^verbatim>\<open>_custom_parse_data\<close> raises.\<close>

definition abstract_custom_parse_data :: "string option \<Rightarrow> error + pydict" where
  "abstract_custom_parse_data s = Inl NotImplementedError"

text \<open>
  Operations return the item as they leave it together with either the exception raised
  or the value returned, so that the state after a failure can be inspected.
\<close>

definition item_open :: "item \<Rightarrow> item \<times> (error + unit)" where
  "item_open it =
     (case stream it of
        Some s \<Rightarrow> (it, Inr ())
      | None \<Rightarrow> (case opener it () of
                   Inl e \<Rightarrow> (it, Inl e)
                 | Inr s \<Rightarrow> (it\<lparr>stream := Some s\<rparr>, Inr ())))"

definition parse_data :: "item \<Rightarrow> item \<times> (error + unit)" where
  "parse_data it0 =
     (let it = it0\<lparr>parse_data_calls := Suc (parse_data_calls it0)\<rparr> in
      case item_open it of
        (it1, Inl e) \<Rightarrow> (it1, Inl e)
      | (it1, Inr u) \<Rightarrow>
          (case custom_parse_data it1 (stream it1) of
             Inl e \<Rightarrow> (it1, Inl e)
           | Inr props \<Rightarrow>
               (it1\<lparr>properties := (properties it1)\<lparr>own := dict_update (own (properties it1)) props\<rparr>\<rparr>,
                Inr ())))"

definition getitem :: "heap \<Rightarrow> item \<Rightarrow> string \<Rightarrow> item \<times> (error + pyval)" where
  "getitem h it key =
     (case (if \<not> loaded (properties it)
            then (case parse_data it of
                    (it1, Inl e) \<Rightarrow> (it1, Inl e)
                  | (it1, Inr u) \<Rightarrow> (it1\<lparr>properties := (properties it1)\<lparr>loaded := True\<rparr>\<rparr>, Inr ()))
            else (it, Inr ())) of
        (it2, Inl e) \<Rightarrow> (it2, Inl e)
      | (it2, Inr u) \<Rightarrow>
          (let k = alias_get (aliases it2) key in
           (it2,
            Inr (case dict_getitem (h (storage_properties (properties it2))) k of
                   Inr res \<Rightarrow> res
                 | Inl e \<Rightarrow> (case dict_getitem (own (properties it2)) k of
                              Inr res \<Rightarrow> res
                            | Inl e' \<Rightarrow> PyNone)))))"

definition setitem :: "heap \<Rightarrow> item \<Rightarrow> string \<Rightarrow> pyval \<Rightarrow> heap \<times> item" where
  "setitem h it key val =
     (let k = alias_get (aliases it); sp = storage_properties (properties it) in
      case dict_setitem (h sp) (k key) val of
        Inr d \<Rightarrow> (h(sp := d), it)
      | Inl e \<Rightarrow>
          (case dict_setitem (own (properties it)) (k key) val of
             Inr d \<Rightarrow> (h, it\<lparr>properties := (properties it)\<lparr>own := d\<rparr>\<rparr>)
           | Inl e' \<Rightarrow> (h, it)))"

text \<open>
  \<^verbatim>\<open>Item.serialize\<close>. \<^verbatim>\<open>ItemProperties\<close> does not override \<^verbatim>\<open>keys\<close>, so
  \<^verbatim>\<open>self.properties.keys()\<close> lists the keys of the object's own dictionary, a list made
  before the first value is read. Each value is read with \<^verbatim>\<open>__getitem__\<close>. The last line
  calls \<^verbatim>\<open>_serialize(self, props)\<close>, a name looked up in the function and then in the
  module, where nothing called \<^verbatim>\<open>_serialize\<close> is defined (the method of that name is an
  attribute of the class).
\<close>

fun serialize_props ::
  "heap \<Rightarrow> item \<Rightarrow> string list \<Rightarrow> (string \<times> pyval) list \<Rightarrow> item \<times> (error + (string \<times> pyval) list)" where
  "serialize_props h it [] acc = (it, Inr acc)"
| "serialize_props h it (key # keys) acc =
     (case getitem h it key of
        (it1, Inl e) \<Rightarrow> (it1, Inl e)
      | (it1, Inr v) \<Rightarrow> serialize_props h it1 keys (acc @ [(alias_get (aliases it) key, v)]))"

definition serialize :: "heap \<Rightarrow> item \<Rightarrow> item \<times> (error + string)" where
  "serialize h it =
     (case serialize_props h it (dict_keys (own (properties it))) [] of
        (it1, Inl e) \<Rightarrow> (it1, Inl e)
      | (it1, Inr pairs) \<Rightarrow> (let props = dict_update [] pairs in (it1, Inl NameError)))"

text \<open>\<^verbatim>\<open>AtomItem.read\<close> and \<^verbatim>\<open>AtomItem.write\<close>.\<close>

definition AtomItem_read :: "heap \<Rightarrow> item \<Rightarrow> item \<times> (error + pyval)" where
  "AtomItem_read h it = getitem h it ''_content''"

definition AtomItem_write :: "heap \<Rightarrow> item \<Rightarrow> pyval \<Rightarrow> heap \<times> item" where
  "AtomItem_write h it val = setitem h it ''_content'' val"

text \<open>
  A caller's sequence of property reads and writes on one item. An exception of a read is
  caught by the caller, who goes on with the item as the failed read left it.
\<close>

datatype access = Read string | Write string pyval

fun is_Read :: "access \<Rightarrow> bool" where
  "is_Read (Read k) = True"
| "is_Read (Write k v) = False"

fun accesses :: "heap \<times> item \<Rightarrow> access list \<Rightarrow> heap \<times> item" where
  "accesses (h, it) [] = (h, it)"
| "accesses (h, it) (Read k # as) = accesses (h, fst (getitem h it k)) as"
| "accesses (h, it) (Write k v # as) = accesses (setitem h it k v) as"

text \<open>
  The fixtures of the doctests of \<^verbatim>\<open>item.py\<close> (\<^verbatim>\<open>_test.corks\<close>): an opener that
  succeeds, and a parser that returns the properties the doctest of \<^verbatim>\<open>ItemProperties\<close>
  shows.
\<close>

definition cork_opener :: "unit \<Rightarrow> error + string" where
  "cork_opener u = Inr ''toto''"

definition cork_parse :: "string option \<Rightarrow> error + pydict" where
  "cork_parse s =
     Inr [(''cork_prop'', PyStr ''I am a cork prop''),
          (''b'', PyStr ''the b of the item''),
          (''I am not aliased'', PyStr ''value of: I am not aliased'')]"

definition cork_aliases :: "(string \<times> string) list" where
  "cork_aliases = [(''I am aliased'', ''I am not aliased'')]"

section \<open>The DB-API storage (\<^verbatim>\<open>kalamar/storage/dbapi.py\<close>)\<close>

subsection \<open>Strings\<close>

text \<open>\<^verbatim>\<open>str(n)\<close> of an integer: its decimal digits, with a minus sign when negative.\<close>

definition digit_char :: "nat \<Rightarrow> char" where
  "digit_char d = ''0123456789'' ! d"

fun str_nat :: "nat \<Rightarrow> string" where
  "str_nat n = (if n < 10 then [digit_char n] else str_nat (n div 10) @ [digit_char (n mod 10)])"

declare str_nat.simps [simp del]

definition str_int :: "int \<Rightarrow> string" where
  "str_int i = (if i < 0 then CHR ''-'' # str_nat (nat (- i)) else str_nat (nat i))"

text \<open>\<^verbatim>\<open>'%s' % v\<close> for a value that is not a tuple.\<close>

fun py_str :: "pyval \<Rightarrow> string" where
  "py_str PyNone = ''None''"
| "py_str (PyStr s) = s"
| "py_str (PyInt i) = str_int i"
| "py_str (PyFunc f) = ''<function>''"

text \<open>\<^verbatim>\<open>s.split(c)\<close> for a separator of one character: never an empty list.\<close>

fun split :: "char \<Rightarrow> string \<Rightarrow> string list" where
  "split c [] = [[]]"
| "split c (x # xs) =
     (if x = c then [] # split c xs
      else (case split c xs of
              [] \<Rightarrow> [[x]]
            | p # ps \<Rightarrow> (x # p) # ps))"

subsection \<open>\<^verbatim>\<open>_format_request\<close>\<close>

text \<open>The typed parameters handed to the cursor: the list as it was, or a dictionary.\<close>

datatype params = ParamList "pyval list" | ParamDict pydict

text \<open>
  The two generators \<^verbatim>\<open>new_request_parts\<close>. \<^verbatim>\<open>parts[0]\<close> raises on an empty list,
  which \<^verbatim>\<open>split\<close> never returns.
\<close>

definition new_request_parts_numeric :: "string list \<Rightarrow> error + string list" where
  "new_request_parts_numeric parts =
     (case parts of
        [] \<Rightarrow> Inl IndexError
      | p0 # rest \<Rightarrow> Inr (p0 # map (\<lambda>(i, part). '':'' @ str_nat (i + 1) @ part) (enumerate 0 rest)))"

definition new_request_parts_named :: "string list \<Rightarrow> error + string list" where
  "new_request_parts_named parts =
     (case parts of
        [] \<Rightarrow> Inl IndexError
      | p0 # rest \<Rightarrow> Inr (p0 # map (\<lambda>(i, part). '':name'' @ str_nat i @ part) (enumerate 0 rest)))"

text \<open>
  \<open>style\<close> is \<^verbatim>\<open>connection.paramstyle\<close> of the connection that \<^verbatim>\<open>get_connection\<close>
  returns. In the last branch the expression statement
  \<^verbatim>\<open>UnsupportedParameterStyleError(style)\<close> evaluates the name
  \<^verbatim>\<open>UnsupportedParameterStyleError\<close>, which is an attribute of the class
  \<^verbatim>\<open>DBAPIStorage\<close> and not a name of the function or of the module.
\<close>

definition format_request :: "string \<Rightarrow> string \<Rightarrow> pyval list \<Rightarrow> error + (string \<times> params)" where
  "format_request style request parameters =
     (if style = ''qmark'' then Inr (request, ParamList parameters)
      else if style = ''numeric'' then
        (case new_request_parts_numeric (split CHR ''?'' request) of
           Inl e \<Rightarrow> Inl e
         | Inr new_parts \<Rightarrow> Inr (concat new_parts, ParamList parameters))
      else if style = ''named'' then
        (case new_request_parts_named (split CHR ''?'' request) of
           Inl e \<Rightarrow> Inl e
         | Inr new_parts \<Rightarrow>
             Inr (concat new_parts,
                  ParamDict (dict_update []
                    (map (\<lambda>(i, v). (''name'' @ str_nat i, v)) (enumerate 0 parameters)))))
      else if style = ''format'' then Inl NotImplementedError
      else if style = ''pyformat'' then Inl NotImplementedError
      else Inl NameError)"

subsection \<open>The storage, its connection and the driver\<close>

text \<open>
  What the driver answers to one \<^verbatim>\<open>cursor.execute\<close>: \<^verbatim>\<open>cur.description\<close>, the successive
  results of \<^verbatim>\<open>cur.fetchmany()\<close> (an empty list once they are used up), and the row
  count. An entry of \<open>description\<close> is the key under which \<^verbatim>\<open>_storage_search\<close> files a
  column of a row; a driver that follows DB-API gives a 7-item sequence there, which
  equals no string.
\<close>

record cursor_answer =
  description :: "pyval list"
  fetches :: "pyval list list list"
  rowcount :: int

record connection =
  paramstyle :: string
  execute :: "string \<Rightarrow> params option \<Rightarrow> error + cursor_answer"

text \<open>
  A \<^verbatim>\<open>DBAPIStorage\<close> with what its abstract methods and its base class supply:
  \<open>table\<close> from \<^verbatim>\<open>get_connection\<close>, \<open>primary_keys\<close> from \<^verbatim>\<open>_get_primary_keys\<close>,
  \<open>config\<close> from \<^verbatim>\<open>AccessPoint\<close>. \<^verbatim>\<open>__init__\<close> assigns the inverted operator table to
  \<^verbatim>\<open>self._operatorsfrom_function\<close>, while \<^verbatim>\<open>_storage_search\<close> reads
  \<^verbatim>\<open>self.operators_from_function\<close>: \<open>operators_from_function\<close> is \<open>None\<close> when no such
  attribute exists, and otherwise a table from functions to operator names.
  \<open>call_function\<close> applies a comparison function of \<^verbatim>\<open>kalamar.utils\<close>.
\<close>

record dbapi_storage =
  table :: string
  primary_keys :: "string list"
  config :: "(string \<times> string) list"
  operators :: "(string \<times> string) list"
  operators_from_function :: "(nat \<times> string) list option"
  call_function :: "nat \<Rightarrow> pyval \<Rightarrow> pyval \<Rightarrow> error + bool"

text \<open>\<^verbatim>\<open>self.config[k]\<close>.\<close>

definition config_getitem :: "dbapi_storage \<Rightarrow> string \<Rightarrow> error + string" where
  "config_getitem st k = (case map_of (config st) k of None \<Rightarrow> Inl KeyError | Some v \<Rightarrow> Inr v)"

definition DBAPIStorage_operators :: "(string \<times> string) list" where
  "DBAPIStorage_operators =
     [(''='', ''=''), (''!='', ''!=''), (''>'', ''>''), (''>='', ''>=''), (''<'', ''<''), (''<='', ''<='')]"

subsection \<open>\<^verbatim>\<open>Item.get_item_parser\<close>\<close>

text \<open>
  \<open>subclasses\<close> is what \<^verbatim>\<open>utils.recursive_subclasses(Item)\<close> yields: each class with its
  \<^verbatim>\<open>format\<close> attribute. The result is the class to instantiate. When none matches,
  \<^verbatim>\<open>'Unknown format: ' + format\<close> is a \<^verbatim>\<open>TypeError\<close> unless \<open>format\<close> is a string.
\<close>

definition get_item_parser :: "(pyval \<times> 'c) list \<Rightarrow> pyval \<Rightarrow> error + 'c" where
  "get_item_parser subclasses fmt =
     (case find (\<lambda>(f, c). f = fmt) subclasses of
        Some (f, c) \<Rightarrow> Inr c
      | None \<Rightarrow> (case fmt of PyStr s \<Rightarrow> Inl ValueError | _ \<Rightarrow> Inl TypeError))"

text \<open>The built-in function \<^verbatim>\<open>format\<close>, which is what the name denotes in \<^verbatim>\<open>dbapi.py\<close>.\<close>

definition builtin_format :: pyval where
  "builtin_format = PyFunc 0"

text \<open>
  \<^verbatim>\<open>_opener(content)\<close> returns a function that calls \<^verbatim>\<open>StringIO\<close>, a name the
  module does not import.
\<close>

definition dbapi_opener :: "pyval \<Rightarrow> unit \<Rightarrow> error + string" where
  "dbapi_opener content u = Inl NameError"

subsection \<open>\<^verbatim>\<open>_storage_search\<close>\<close>

text \<open>A condition is a tuple \<^verbatim>\<open>(name, function, value)\<close>.\<close>

type_synonym condition = "string \<times> nat \<times> pyval"

definition tuple_items :: "condition \<Rightarrow> pyval list" where
  "tuple_items c = (case c of (name, funct, val) \<Rightarrow> [PyStr name, PyFunc funct, val])"

text \<open>\<^verbatim>\<open>v[i]\<close> for \<open>i \<ge> 0\<close>: a character of a string; the other values are not subscriptable.\<close>

fun py_getitem :: "pyval \<Rightarrow> nat \<Rightarrow> error + pyval" where
  "py_getitem (PyStr s) i = (if i < length s then Inr (PyStr [s ! i]) else Inl IndexError)"
| "py_getitem v i = Inl TypeError"

text \<open>\<^verbatim>\<open>v + "..."\<close>: concatenation when \<open>v\<close> is a string.\<close>

fun py_concat :: "pyval \<Rightarrow> string \<Rightarrow> error + string" where
  "py_concat (PyStr s) t = Inr (s @ t)"
| "py_concat v t = Inl TypeError"

text \<open>\<^verbatim>\<open>self.operators_from_function[k]\<close>: the keys of the table are functions.\<close>

fun function_lookup :: "(nat \<times> string) list \<Rightarrow> pyval \<Rightarrow> error + string" where
  "function_lookup tbl (PyFunc f) = (case map_of tbl f of None \<Rightarrow> Inl KeyError | Some oper \<Rightarrow> Inr oper)"
| "function_lookup tbl v = Inl KeyError"

text \<open>
  What \<^verbatim>\<open>remaining_conditions\<close> holds: the loop appends its variable \<^verbatim>\<open>cond\<close>, a
  component of the last condition; the code after the loop appends the last condition.
\<close>

datatype remaining = RemItem pyval | RemCond condition

text \<open>
  The loop \<^verbatim>\<open>for cond in conditions[-1]\<close>, over the three components of the last
  condition. Only a \<^verbatim>\<open>KeyError\<close> of \<^verbatim>\<open>self.operators[oper]\<close> is caught.
\<close>

fun search_loop ::
  "dbapi_storage \<Rightarrow> pyval list \<Rightarrow> string \<times> pyval list \<times> remaining list
     \<Rightarrow> error + (string \<times> pyval list \<times> remaining list)" where
  "search_loop st [] acc = Inr acc"
| "search_loop st (cond # conds) (request, parameters, remaining_conditions) =
     (case operators_from_function st of
        None \<Rightarrow> Inl AttributeError
      | Some tbl \<Rightarrow>
          (case py_getitem cond 1 of
             Inl e \<Rightarrow> Inl e
           | Inr c1 \<Rightarrow>
               (case function_lookup tbl c1 of
                  Inl e \<Rightarrow> Inl e
                | Inr oper \<Rightarrow>
                    (case map_of (operators st) oper of
                       None \<Rightarrow> search_loop st conds (request, parameters, remaining_conditions @ [RemItem cond])
                     | Some oper' \<Rightarrow>
                         (case py_getitem cond 0 of
                            Inl e \<Rightarrow> Inl e
                          | Inr c0 \<Rightarrow>
                              (case py_concat c0 ''=? AND '' of
                                 Inl e \<Rightarrow> Inl e
                               | Inr clause \<Rightarrow>
                                   (case py_getitem cond 2 of
                                      Inl e \<Rightarrow> Inl e
                                    | Inr c2 \<Rightarrow>
                                        search_loop st conds
                                          (request @ clause, parameters @ [c2], remaining_conditions))))))))"

text \<open>\<^verbatim>\<open>for name, funct, value in remaining_conditions\<close>: unpacking one element.\<close>

fun unpack3 :: "remaining \<Rightarrow> error + (pyval \<times> pyval \<times> pyval)" where
  "unpack3 (RemCond (name, funct, val)) = Inr (PyStr name, PyFunc funct, val)"
| "unpack3 (RemItem (PyStr s)) =
     (case s of [a, b, c] \<Rightarrow> Inr (PyStr [a], PyStr [b], PyStr [c]) | _ \<Rightarrow> Inl ValueError)"
| "unpack3 (RemItem v) = Inl TypeError"

text \<open>\<^verbatim>\<open>funct(line[name], value)\<close>, for a row filed under the entries of the description.\<close>

definition call_condition ::
  "dbapi_storage \<Rightarrow> (pyval \<times> pyval) list \<Rightarrow> pyval \<times> pyval \<times> pyval \<Rightarrow> error + bool" where
  "call_condition st line nfv =
     (case nfv of (name, funct, val) \<Rightarrow>
        (case map_of line name of
           None \<Rightarrow> Inl KeyError
         | Some x \<Rightarrow> (case funct of PyFunc f \<Rightarrow> call_function st f x val | _ \<Rightarrow> Inl TypeError)))"

fun row_ok :: "dbapi_storage \<Rightarrow> (pyval \<times> pyval) list \<Rightarrow> remaining list \<Rightarrow> error + bool" where
  "row_ok st line [] = Inr True"
| "row_ok st line (r # rs) =
     (case unpack3 r of
        Inl e \<Rightarrow> Inl e
      | Inr nfv \<Rightarrow>
          (case call_condition st line nfv of
             Inl e \<Rightarrow> Inl e
           | Inr b \<Rightarrow> (if \<not> b then Inr False else row_ok st line rs)))"

text \<open>
  The body of \<^verbatim>\<open>for line in res\<close>. \<open>construct\<close> instantiates a class of
  \<open>subclasses\<close> on the two positional arguments \<^verbatim>\<open>(opener, line)\<close>.
\<close>

fun search_rows ::
  "dbapi_storage \<Rightarrow> (pyval \<times> 'c) list \<Rightarrow> ('c \<Rightarrow> (unit \<Rightarrow> error + string) \<Rightarrow> (pyval \<times> pyval) list \<Rightarrow> error + 'i)
     \<Rightarrow> pyval list \<Rightarrow> remaining list \<Rightarrow> pyval list list \<Rightarrow> 'i list \<Rightarrow> error + 'i list" where
  "search_rows st subclasses construct descr rc [] items_ok = Inr items_ok"
| "search_rows st subclasses construct descr rc (row # rows) items_ok =
     (let line = dict_update [] (zip descr row) in
      case row_ok st line rc of
        Inl e \<Rightarrow> Inl e
      | Inr ok \<Rightarrow>
          (if ok then
             (case config_getitem st ''content_column'' of
                Inl e \<Rightarrow> Inl e
              | Inr cc \<Rightarrow>
                  (case map_of line (PyStr cc) of
                     None \<Rightarrow> Inl KeyError
                   | Some content \<Rightarrow>
                       (case get_item_parser subclasses builtin_format of
                          Inl e \<Rightarrow> Inl e
                        | Inr cls \<Rightarrow>
                            (case construct cls (dbapi_opener content) line of
                               Inl e \<Rightarrow> Inl e
                             | Inr it \<Rightarrow>
                                 search_rows st subclasses construct descr rc rows (items_ok @ [it])))))
           else search_rows st subclasses construct descr rc rows items_ok))"

text \<open>\<^verbatim>\<open>while res\<close>: one batch of \<^verbatim>\<open>fetchmany\<close> after the other, until an empty one.\<close>

fun search_fetch ::
  "dbapi_storage \<Rightarrow> (pyval \<times> 'c) list \<Rightarrow> ('c \<Rightarrow> (unit \<Rightarrow> error + string) \<Rightarrow> (pyval \<times> pyval) list \<Rightarrow> error + 'i)
     \<Rightarrow> pyval list \<Rightarrow> remaining list \<Rightarrow> pyval list list list \<Rightarrow> 'i list \<Rightarrow> error + 'i list" where
  "search_fetch st subclasses construct descr rc [] items_ok = Inr items_ok"
| "search_fetch st subclasses construct descr rc (res # later) items_ok =
     (if res = [] then Inr items_ok
      else (case search_rows st subclasses construct descr rc res items_ok of
              Inl e \<Rightarrow> Inl e
            | Inr items \<Rightarrow> search_fetch st subclasses construct descr rc later items))"

text \<open>The code after the loop: the last condition, the request, the rows.\<close>

definition search_last ::
  "dbapi_storage \<Rightarrow> condition \<Rightarrow> string \<times> pyval list \<times> remaining list
     \<Rightarrow> error + (string \<times> pyval list \<times> remaining list)" where
  "search_last st c acc =
     (case (c, acc) of ((name, funct, val), (request, parameters, remaining_conditions)) \<Rightarrow>
        (case operators_from_function st of
           None \<Rightarrow> Inl AttributeError
         | Some tbl \<Rightarrow>
             (case function_lookup tbl (PyFunc funct) of
                Inl e \<Rightarrow> Inl e
              | Inr oper \<Rightarrow>
                  (case map_of (operators st) oper of
                     None \<Rightarrow> Inr (request, parameters, remaining_conditions @ [RemCond c])
                   | Some oper' \<Rightarrow> Inr (request @ name @ ''=?;'', parameters @ [val], remaining_conditions)))))"

definition storage_search ::
  "dbapi_storage \<Rightarrow> connection \<Rightarrow> (pyval \<times> 'c) list
     \<Rightarrow> ('c \<Rightarrow> (unit \<Rightarrow> error + string) \<Rightarrow> (pyval \<times> pyval) list \<Rightarrow> error + 'i)
     \<Rightarrow> condition list \<Rightarrow> error + 'i list" where
  "storage_search st conn subclasses construct conditions =
     (if conditions = [] then Inl IndexError
      else
        (case search_loop st (tuple_items (last conditions))
                (''SELECT * FROM '' @ table st @ '' WHERE '', [], []) of
           Inl e \<Rightarrow> Inl e
         | Inr acc \<Rightarrow>
             (case search_last st (last conditions) acc of
                Inl e \<Rightarrow> Inl e
              | Inr (request, parameters, remaining_conditions) \<Rightarrow>
                  (case format_request (paramstyle conn) request parameters of
                     Inl e \<Rightarrow> Inl e
                   | Inr (request', parameters') \<Rightarrow>
                       (case execute conn request' (Some parameters') of
                          Inl e \<Rightarrow> Inl e
                        | Inr answer \<Rightarrow>
                            search_fetch st subclasses construct (description answer)
                              remaining_conditions (fetches answer) [])))))"

subsection \<open>\<^verbatim>\<open>save\<close>\<close>

text \<open>
  What \<^verbatim>\<open>save\<close> asks of the connection and of its cursor, in the order of the calls.
  The store of the database is changed by these calls only.
\<close>

datatype db_call =
    CursorExecute string
  | ConnectionRollback
  | CursorCommit
  | CursorClose

text \<open>The state \<^verbatim>\<open>save\<close> works on: the dictionaries, the item, the calls made so far.\<close>

record save_state =
  store :: heap
  subject :: item
  calls :: "db_call list"

definition and_then ::
  "save_state \<times> (error + 'a) \<Rightarrow> (save_state \<Rightarrow> 'a \<Rightarrow> save_state \<times> (error + 'b))
     \<Rightarrow> save_state \<times> (error + 'b)" where
  "and_then m f = (case m of (s, Inl e) \<Rightarrow> (s, Inl e) | (s, Inr x) \<Rightarrow> f s x)"

definition st_getitem :: "save_state \<Rightarrow> string \<Rightarrow> save_state \<times> (error + pyval)" where
  "st_getitem s key = (case getitem (store s) (subject s) key of (it, r) \<Rightarrow> (s\<lparr>subject := it\<rparr>, r))"

definition st_setitem :: "save_state \<Rightarrow> string \<Rightarrow> pyval \<Rightarrow> save_state \<times> (error + unit)" where
  "st_setitem s key val =
     (case setitem (store s) (subject s) key val of (h, it) \<Rightarrow> (s\<lparr>store := h, subject := it\<rparr>, Inr ()))"

definition st_serialize :: "save_state \<Rightarrow> save_state \<times> (error + string)" where
  "st_serialize s = (case serialize (store s) (subject s) of (it, r) \<Rightarrow> (s\<lparr>subject := it\<rparr>, r))"

text \<open>\<^verbatim>\<open>del item.properties[key]\<close>: the deletion of \<^verbatim>\<open>dict\<close>, on the object's own dictionary.\<close>

definition st_delitem :: "save_state \<Rightarrow> string \<Rightarrow> save_state \<times> (error + unit)" where
  "st_delitem s key =
     (case dict_delitem (own (properties (subject s))) key of
        Inl e \<Rightarrow> (s, Inl e)
      | Inr d \<Rightarrow> (s\<lparr>subject := (subject s)\<lparr>properties := (properties (subject s))\<lparr>own := d\<rparr>\<rparr>\<rparr>, Inr ()))"

definition st_execute :: "connection \<Rightarrow> save_state \<Rightarrow> string \<Rightarrow> save_state \<times> (error + cursor_answer)" where
  "st_execute conn s req = (s\<lparr>calls := calls s @ [CursorExecute req]\<rparr>, execute conn req None)"

definition st_call :: "save_state \<Rightarrow> db_call \<Rightarrow> save_state \<times> (error + unit)" where
  "st_call s c = (s\<lparr>calls := calls s @ [c]\<rparr>, Inr ())"

text \<open>
  A loop \<^verbatim>\<open>for key in ks: req.extend(fmt % (key, item.properties[key]))\<close>; \<open>fmt\<close> is the
  text one key and its value add.
\<close>

fun extend_each ::
  "(string \<Rightarrow> pyval \<Rightarrow> string) \<Rightarrow> string list \<Rightarrow> save_state \<Rightarrow> string \<Rightarrow> save_state \<times> (error + string)" where
  "extend_each fmt [] s req = (s, Inr req)"
| "extend_each fmt (key # ks) s req =
     and_then (st_getitem s key) (\<lambda>s1 v. extend_each fmt ks s1 (req @ fmt key v))"

text \<open>\<^verbatim>\<open>xs[-1]\<close> and \<^verbatim>\<open>xs[:-1]\<close>; the slice of an empty list is empty, its last element raises.\<close>

definition py_last :: "'a list \<Rightarrow> error + 'a" where
  "py_last xs = (if xs = [] then Inl IndexError else Inr (last xs))"

text \<open>
  The value of the variable \<^verbatim>\<open>key\<close> where the \<^verbatim>\<open>INSERT\<close> branch reads
  \<^verbatim>\<open>item.properties[key[-1]]\<close>: the last key the loops over \<^verbatim>\<open>keys[:-1]\<close> bound,
  else the last character that the loop over \<^verbatim>\<open>pk[-1]\<close> bound, else unbound.
\<close>

definition leftover_key :: "string list \<Rightarrow> string \<Rightarrow> error + string" where
  "leftover_key keys last_pk =
     (if butlast keys \<noteq> [] then Inr (last (butlast keys))
      else if last_pk \<noteq> [] then Inr [last last_pk]
      else Inl NameError)"

definition fmt_set :: "string \<Rightarrow> pyval \<Rightarrow> string" where
  "fmt_set key v = key @ '' = '' @ py_str v @ '' , ''"

definition fmt_set_last :: "string \<Rightarrow> pyval \<Rightarrow> string" where
  "fmt_set_last key v = key @ '' = '' @ py_str v @ '' WHERE''"

definition fmt_where :: "string \<Rightarrow> pyval \<Rightarrow> string" where
  "fmt_where key v = '' '' @ key @ '' = '' @ py_str v"

definition fmt_where_last :: "string \<Rightarrow> pyval \<Rightarrow> string" where
  "fmt_where_last key v = '' '' @ key @ '' = '' @ py_str v @ '';''"

definition fmt_value :: "string \<Rightarrow> pyval \<Rightarrow> string" where
  "fmt_value key v = py_str v @ '' , ''"

definition fmt_value_last :: "string \<Rightarrow> pyval \<Rightarrow> string" where
  "fmt_value_last key v = py_str v @ '' );''"

text \<open>The branch \<^verbatim>\<open>if n == 0\<close>: the \<^verbatim>\<open>INSERT\<close> request and its execution.\<close>

definition save_insert ::
  "dbapi_storage \<Rightarrow> connection \<Rightarrow> string list \<Rightarrow> string \<Rightarrow> string \<Rightarrow> save_state
     \<Rightarrow> save_state \<times> (error + unit)" where
  "save_insert st conn keys last_key last_pk s =
     (let req = ''INSERT INTO '' @ table st @ '' ( '' @ concat (map (\<lambda>key. key @ '' , '') (butlast keys))
                  @ last_key @ '' ) VALUES ( '' in
      and_then (extend_each fmt_value (butlast keys) s req) (\<lambda>s1 req1.
      and_then (s1, leftover_key keys last_pk) (\<lambda>s2 key.
      and_then (s2, py_last key) (\<lambda>s3 c.
      and_then (extend_each fmt_value_last [[c]] s3 req1) (\<lambda>s4 req2.
      and_then (st_execute conn s4 req2) (\<lambda>s5 answer. (s5, Inr ())))))))"

text \<open>
  \<^verbatim>\<open>save\<close>. The right-hand side \<^verbatim>\<open>item.serialize()\<close> of the first assignment is
  evaluated before its target. In the branch \<^verbatim>\<open>elif n > 1\<close>, the name
  \<^verbatim>\<open>ManyItemsUpdatedError\<close> is an attribute of the class \<^verbatim>\<open>DBAPIStorage\<close> and not a
  name of the function or of the module.
\<close>

definition save :: "dbapi_storage \<Rightarrow> connection \<Rightarrow> save_state \<Rightarrow> save_state \<times> (error + unit)" where
  "save st conn s0 =
     (let req = ''UPDATE '' @ table st @ '' SET '';
          pk = primary_keys st;
          keys = dict_keys (store s0 (storage_properties (properties (subject s0)))) in
      and_then (st_serialize s0) (\<lambda>s1 data.
      and_then (s1, config_getitem st ''content_column'') (\<lambda>s2 cc.
      and_then (st_setitem s2 cc (PyStr data)) (\<lambda>s3 u.
      and_then (st_delitem s3 ''_content'') (\<lambda>s4 u.
      and_then (extend_each fmt_set (butlast keys) s4 req) (\<lambda>s5 req1.
      and_then (s5, py_last keys) (\<lambda>s6 last_key.
      and_then (extend_each fmt_set_last [last_key] s6 req1) (\<lambda>s7 req2.
      and_then (s7, py_last pk) (\<lambda>s8 last_pk.
      and_then (extend_each fmt_where (map (\<lambda>c. [c]) last_pk) s8 req2) (\<lambda>s9 req3.
      and_then (extend_each fmt_where_last [last_pk] s9 req3) (\<lambda>s10 req4.
      and_then (st_execute conn s10 req4) (\<lambda>s11 answer.
      and_then
        (if rowcount answer = 0 then save_insert st conn keys last_key last_pk s11
         else if rowcount answer > 1 then
           and_then (st_call s11 ConnectionRollback) (\<lambda>s12 u.
           and_then (st_call s12 CursorClose) (\<lambda>s13 u. (s13, Inl NameError)))
         else (s11, Inr ()))
        (\<lambda>s14 u.
      and_then (st_call s14 CursorCommit) (\<lambda>s15 u.
      st_call s15 CursorClose))))))))))))))"

text \<open>\<^verbatim>\<open>remove\<close>: the request is executed; nothing is committed.\<close>

definition fmt_and :: "string \<Rightarrow> pyval \<Rightarrow> string" where
  "fmt_and key v = key @ '' = '' @ py_str v @ '' AND ''"

definition fmt_and_last :: "string \<Rightarrow> pyval \<Rightarrow> string" where
  "fmt_and_last key v = key @ '' = '' @ py_str v @ '' ;''"

definition remove :: "dbapi_storage \<Rightarrow> connection \<Rightarrow> save_state \<Rightarrow> save_state \<times> (error + unit)" where
  "remove st conn s0 =
     (let req = ''REMOVE FROM '' @ table st @ '' WHERE '';
          pk = primary_keys st in
      and_then (extend_each fmt_and (butlast pk) s0 req) (\<lambda>s1 req1.
      and_then (s1, py_last pk) (\<lambda>s2 last_pk.
      and_then (extend_each fmt_and_last [last_pk] s2 req1) (\<lambda>s3 req2.
      and_then (st_execute conn s3 req2) (\<lambda>s4 answer. (s4, Inr ()))))))"

section \<open>Fixtures and invariants used in the proofs\<close>

text \<open>
  The item of the doctest of \<^verbatim>\<open>ItemProperties\<close>, \<^verbatim>\<open>CorkItem({"a" : "A", "b" : "B"})\<close>:
  its storage dictionary is an object of its own, at address 1.
\<close>

definition cork_heap :: heap where
  "cork_heap = initial_heap(1 := [(''a'', PyStr ''A''), (''b'', PyStr ''B'')])"

definition cork_item :: item where
  "cork_item = Item_init cork_heap cork_aliases cork_opener 1 cork_parse"

text \<open>An item of the abstract class \<^verbatim>\<open>Item\<close>, built without storage properties.\<close>

definition abstract_item :: item where
  "abstract_item =
     Item_init initial_heap cork_aliases cork_opener accessor_properties_default abstract_custom_parse_data"

text \<open>Two items of the cork class, each built without storage properties.\<close>

definition first_default_item :: item where
  "first_default_item = Item_init initial_heap cork_aliases cork_opener accessor_properties_default cork_parse"

definition second_default_item :: item where
  "second_default_item = Item_init initial_heap [] cork_opener accessor_properties_default cork_parse"

text \<open>
  A storage over the table of the cork items, its driver answering every request with no
  row and a row count of 0, and one class of items, built from the arguments as they come.
  The comparison functions of \<^verbatim>\<open>kalamar.utils\<close> are numbered from 1; function 1 is
  equality.
\<close>

definition cork_call_function :: "nat \<Rightarrow> pyval \<Rightarrow> pyval \<Rightarrow> error + bool" where
  "cork_call_function f x y = (if f = 1 then Inr (x = y) else Inr (x \<noteq> y))"

definition cork_storage :: dbapi_storage where
  "cork_storage =
     \<lparr>table = ''corks'', primary_keys = [''a''], config = [(''content_column'', ''b'')],
      operators = DBAPIStorage_operators,
      operators_from_function = Some [(1, ''=''), (2, ''!='')],
      call_function = cork_call_function\<rparr>"

definition cork_execute :: "string \<Rightarrow> params option \<Rightarrow> error + cursor_answer" where
  "cork_execute req ps = Inr \<lparr>description = [], fetches = [], rowcount = 0\<rparr>"

definition cork_connection :: connection where
  "cork_connection = \<lparr>paramstyle = ''qmark'', execute = cork_execute\<rparr>"

definition cork_subclasses :: "(pyval \<times> unit) list" where
  "cork_subclasses = [(PyStr ''cork'', ())]"

definition cork_construct ::
  "unit \<Rightarrow> (unit \<Rightarrow> error + string) \<Rightarrow> (pyval \<times> pyval) list \<Rightarrow> error + (pyval \<times> pyval) list" where
  "cork_construct c opnr line = Inr line"

text \<open>
  The rewriting of placeholders in the words of the specification, to compare
  \<^verbatim>\<open>_format_request\<close> with: scanning the request from the left, the marker \<open>?\<close> met when
  \<open>n\<close> markers have been numbered is replaced by \<open>marker n\<close>, and every other character is
  kept.
\<close>

fun replace_markers :: "(nat \<Rightarrow> string) \<Rightarrow> nat \<Rightarrow> string \<Rightarrow> string" where
  "replace_markers marker n [] = []"
| "replace_markers marker n (x # xs) =
     (if x = CHR ''?'' then marker n @ replace_markers marker (Suc n) xs
      else x # replace_markers marker n xs)"

text \<open>
  \<open>settled it n\<close>: the item has been parsed once since its counter stood at \<open>n\<close>, or it has
  not been parsed and its parse operation would return.
\<close>

definition settled :: "item \<Rightarrow> nat \<Rightarrow> bool" where
  "settled it n =
     (if loaded (properties it) then parse_data_calls it = Suc n
      else parse_data_calls it = n \<and> snd (parse_data it) = Inr ())"

section \<open>Properties of \<^verbatim>\<open>ItemProperties\<close>\<close>

lemma setitem_storage:
  "setitem h it key val =
     (h(storage_properties (properties it) :=
          AList.update (alias_get (aliases it) key) val (h (storage_properties (properties it)))), it)"
  by (simp add: setitem_def dict_setitem_def Let_def)

lemma parse_data_calls_step:
  "parse_data_calls (fst (parse_data it)) = Suc (parse_data_calls it)"
  by (simp add: parse_data_def item_open_def Let_def split: option.splits sum.splits prod.splits)

lemma parse_data_loaded:
  "loaded (properties (fst (parse_data it))) = loaded (properties it)"
  by (simp add: parse_data_def item_open_def Let_def split: option.splits sum.splits prod.splits)

lemma parse_data_error_own:
  "snd (parse_data it) = Inl e \<Longrightarrow> own (properties (fst (parse_data it))) = own (properties it)"
  by (auto simp add: parse_data_def item_open_def Let_def split: option.splits sum.splits prod.splits)

lemma getitem_loaded: "loaded (properties it) \<Longrightarrow> fst (getitem h it key) = it"
  by (simp add: getitem_def Let_def)

lemma getitem_error:
  "\<not> loaded (properties it) \<Longrightarrow> snd (parse_data it) = Inl e \<Longrightarrow>
     getitem h it key = (fst (parse_data it), Inl e)"
  by (cases "parse_data it") (simp add: getitem_def)

lemma getitem_first:
  assumes "\<not> loaded (properties it)" "snd (parse_data it) = Inr ()"
  shows "loaded (properties (fst (getitem h it key)))"
    and "parse_data_calls (fst (getitem h it key)) = Suc (parse_data_calls it)"
  using assms parse_data_calls_step[of it]
  by (cases "parse_data it"; simp add: getitem_def Let_def)+

lemma settled_getitem:
  assumes "settled it n"
  shows "settled (fst (getitem h it key)) n \<and> loaded (properties (fst (getitem h it key)))"
proof (cases "loaded (properties it)")
  case True
  then show ?thesis using assms getitem_loaded[of it h key] by simp
next
  case False
  then show ?thesis using assms getitem_first[of it h key] by (simp add: settled_def)
qed

lemma loaded_accesses:
  "loaded (properties it) \<Longrightarrow> parse_data_calls (snd (accesses (h, it) ops)) = parse_data_calls it"
proof (induction ops arbitrary: h it)
  case Nil
  then show ?case by simp
next
  case (Cons a ops)
  then show ?case
    by (cases a) (simp_all add: getitem_loaded setitem_storage)
qed

lemma settled_accesses:
  "settled it n \<Longrightarrow> \<not> loaded (properties it) \<Longrightarrow>
     parse_data_calls (snd (accesses (h, it) ops)) = (if list_ex is_Read ops then Suc n else n)"
proof (induction ops arbitrary: h it)
  case Nil
  then show ?case by (simp add: settled_def)
next
  case (Cons a ops)
  show ?case
  proof (cases a)
    case (Read k)
    have "loaded (properties (fst (getitem h it k)))" "settled (fst (getitem h it k)) n"
      using settled_getitem[OF Cons.prems(1)] by auto
    then show ?thesis using Read
      by (simp add: loaded_accesses settled_def)
  next
    case (Write k v)
    then show ?thesis using Cons
      by (simp add: setitem_storage)
  qed
qed

lemma fresh_settled:
  assumes "opnr () = Inr s" "parse (Some s) = Inr props"
  shows "settled (Item_init h al opnr sp parse) 0 \<and> \<not> loaded (properties (Item_init h al opnr sp parse))"
  using assms
  by (simp add: settled_def Item_init_def ItemProperties_init_def parse_data_def item_open_def Let_def)

lemma getitem_unloaded_calls:
  "\<not> loaded (properties it) \<Longrightarrow> parse_data_calls (fst (getitem h it key)) = Suc (parse_data_calls it)"
  using parse_data_calls_step[of it]
  by (cases "parse_data it") (auto simp add: getitem_def Let_def split: sum.splits)

lemma writes_only_accesses:
  "\<not> list_ex is_Read ops \<Longrightarrow> parse_data_calls (snd (accesses (h, it) ops)) = parse_data_calls it"
proof (induction ops arbitrary: h it)
  case Nil
  then show ?case by simp
next
  case (Cons a ops)
  then show ?case by (cases a) (simp_all add: setitem_storage)
qed

lemma fresh_item: "parse_data_calls (Item_init h al opnr sp parse) = 0
    \<and> \<not> loaded (properties (Item_init h al opnr sp parse))"
  by (simp add: Item_init_def ItemProperties_init_def)

text \<open>
  C1, as amended. For every item: \<^verbatim>\<open>_parse_data\<close> has not been called when the item is
  built, no write calls it (so it has been called 0 times before the first read), and the
  first read calls it exactly once, whatever the key and whatever the storage values hold.
  For every item whose opener and whose parser return, it has been called exactly once
  after any sequence of reads and writes that holds a read, whatever the keys.
\<close>

theorem lazy_load_once:
  "parse_data_calls (Item_init h al opnr sp parse) = 0
   \<and> parse_data_calls (snd (setitem h' it key val)) = parse_data_calls it
   \<and> (\<not> list_ex is_Read ops \<longrightarrow>
        parse_data_calls (snd (accesses (h, Item_init h al opnr sp parse) ops)) = 0)
   \<and> parse_data_calls (fst (getitem h (Item_init h al opnr sp parse) key)) = 1
   \<and> (opnr () = Inr s \<and> parse (Some s) = Inr props \<and> list_ex is_Read ops \<longrightarrow>
        parse_data_calls (snd (accesses (h, Item_init h al opnr sp parse) ops)) = 1)"
proof -
  have w: "parse_data_calls (snd (setitem h' it key val)) = parse_data_calls it"
    by (simp add: setitem_storage)
  have z: "\<not> list_ex is_Read ops \<longrightarrow>
        parse_data_calls (snd (accesses (h, Item_init h al opnr sp parse) ops)) = 0"
    using writes_only_accesses[of ops h "Item_init h al opnr sp parse"] fresh_item[of h al opnr sp parse]
    by simp
  have f: "parse_data_calls (fst (getitem h (Item_init h al opnr sp parse) key)) = 1"
    using getitem_unloaded_calls[of "Item_init h al opnr sp parse" h key] fresh_item[of h al opnr sp parse]
    by simp
  have o: "parse_data_calls (snd (accesses (h, Item_init h al opnr sp parse) ops)) = 1"
    if a: "opnr () = Inr s" "parse (Some s) = Inr props" "list_ex is_Read ops"
  proof -
    have "settled (Item_init h al opnr sp parse) 0" "\<not> loaded (properties (Item_init h al opnr sp parse))"
      using a fresh_settled[of opnr s parse props h al sp] by simp_all
    then show ?thesis
      using settled_accesses[of "Item_init h al opnr sp parse" 0 h ops] a(3) by simp
  qed
  show ?thesis using w z f o fresh_item[of h al opnr sp parse] by blast
qed

theorem lazy_load_once_witness:
  "\<not> list_ex is_Read [Write ''b'' (PyStr ''toto'')]
   \<and> parse_data_calls (snd (accesses (initial_heap, abstract_item) [Write ''b'' (PyStr ''toto'')])) = 0
   \<and> cork_opener () = Inr ''toto'' \<and> (\<exists>props. cork_parse (Some ''toto'') = Inr props)
   \<and> list_ex is_Read [Write ''b'' (PyStr ''toto''), Read ''b'', Read ''cork_prop'']
   \<and> parse_data_calls (snd (accesses (cork_heap, cork_item)
        [Write ''b'' (PyStr ''toto''), Read ''b'', Read ''cork_prop''])) = 1"
  using lazy_load_once[where h = cork_heap and al = cork_aliases and opnr = cork_opener and sp = 1
        and parse = cork_parse and s = "''toto''"
        and ops = "[Write ''b'' (PyStr ''toto''), Read ''b'', Read ''cork_prop'']"]
      lazy_load_once[where h = initial_heap and al = cork_aliases and opnr = cork_opener
        and sp = accessor_properties_default and parse = abstract_custom_parse_data
        and ops = "[Write ''b'' (PyStr ''toto'')]"]
  by (simp add: cork_opener_def cork_parse_def cork_item_def abstract_item_def)

text \<open>
  C1 as stated fails for an item whose parse operation raises: two reads of an item of
  the abstract class call \<^verbatim>\<open>_parse_data\<close> twice.
\<close>

theorem parse_twice_counterexample:
  "parse_data_calls (snd (accesses (initial_heap, abstract_item) [Read ''a'', Read ''a''])) = 2"
  by (simp add: abstract_item_def Item_init_def ItemProperties_init_def getitem_def parse_data_def
      item_open_def cork_opener_def abstract_custom_parse_data_def Let_def)

text \<open>A write never touches the dictionary that the object itself is.\<close>

lemma setitem_own_unchanged: "own (properties (snd (setitem h it key val))) = own (properties it)"
  by (simp add: setitem_storage)

text \<open>
  C2. The claim: a write of a key that is absent from the storage values lands in the parsed
  values. On the code: \<^verbatim>\<open>self.storage_properties[key] = value\<close> never raises
  \<^verbatim>\<open>KeyError\<close> on a dictionary, so the handler that would write to the object's own
  dictionary is never run and every write lands in the storage dictionary. Here the key
  \<open>title\<close>, absent from the storage values \<open>a\<close> and \<open>b\<close> of the cork item, is added to
  them, and the item, its own dictionary included, is as before.
\<close>

theorem setitem_absent_key_in_storage:
  "setitem cork_heap cork_item ''title'' (PyStr ''T'')
     = (cork_heap(1 := [(''a'', PyStr ''A''), (''b'', PyStr ''B''), (''title'', PyStr ''T'')]), cork_item)"
  by (simp add: setitem_storage cork_item_def cork_heap_def Item_init_def ItemProperties_init_def
      cork_aliases_def alias_get_def)




text \<open>
  C9. The claim: a write on one item is never observable through another item. On the code:
  two items built without storage properties hold the same dictionary, the default value of
  the parameter, as their storage values, and every write lands there (see C2). The second
  item reads \<^verbatim>\<open>None\<close> for \<open>x\<close> before the first item is written to, and the value written
  after.
\<close>

theorem default_storage_shared:
  "snd (getitem initial_heap second_default_item ''x'') = Inr PyNone
   \<and> snd (getitem (fst (setitem initial_heap first_default_item ''x'' (PyStr ''v'')))
            second_default_item ''x'')
       = Inr (PyStr ''v'')"
  by (simp add: setitem_storage first_default_item_def second_default_item_def initial_heap_def
      Item_init_def ItemProperties_init_def accessor_properties_default_def
      getitem_def parse_data_def item_open_def cork_opener_def cork_parse_def cork_aliases_def
      alias_get_def dict_getitem_def Let_def)

text \<open>
  C10. When the parse operation raises during a read of an item that is not loaded, the
  read raises the same exception, the item is still not loaded and its parsed values are
  as before; the parse operation has been called once more, and any later read calls it
  again.
\<close>

theorem failed_parse_is_retried:
  assumes "\<not> loaded (properties it)" and "snd (parse_data it) = Inl e"
  shows "snd (getitem h it key) = Inl e
       \<and> \<not> loaded (properties (fst (getitem h it key)))
       \<and> own (properties (fst (getitem h it key))) = own (properties it)
       \<and> parse_data_calls (fst (getitem h it key)) = Suc (parse_data_calls it)
       \<and> parse_data_calls (fst (getitem h (fst (getitem h it key)) key'))
           = Suc (Suc (parse_data_calls it))"
proof -
  have g: "getitem h it key = (fst (parse_data it), Inl e)"
    using assms by (rule getitem_error)
  have nl: "\<not> loaded (properties (fst (getitem h it key)))"
    using g assms(1) by (simp add: parse_data_loaded)
  show ?thesis
    using g nl assms parse_data_error_own[of it e] parse_data_calls_step[of it]
      getitem_unloaded_calls[OF nl, of h key']
    by simp
qed

theorem failed_parse_is_retried_witness:
  "\<not> loaded (properties abstract_item) \<and> snd (parse_data abstract_item) = Inl NotImplementedError
   \<and> snd (getitem initial_heap abstract_item ''a'') = Inl NotImplementedError
   \<and> parse_data_calls (fst (getitem initial_heap (fst (getitem initial_heap abstract_item ''a'')) ''b'')) = 2"
  using failed_parse_is_retried[of abstract_item NotImplementedError initial_heap "''a''" "''b''"]
  by (simp add: abstract_item_def Item_init_def ItemProperties_init_def parse_data_def
      item_open_def cork_opener_def abstract_custom_parse_data_def Let_def)

section \<open>Properties of \<^verbatim>\<open>Item.serialize\<close>\<close>

lemma serialize_raises: "\<exists>it' e. serialize h it = (it', Inl e)"
  by (simp add: serialize_def Let_def split: prod.splits sum.splits)

text \<open>
  C8. The claim: \<^verbatim>\<open>serialize\<close> hands the map of all properties to the serialization
  routine of the class and returns its result. On the code: the call
  \<^verbatim>\<open>_serialize(self, props)\<close> names a global that does not exist, so \<^verbatim>\<open>serialize\<close>
  raises \<^verbatim>\<open>NameError\<close> and returns nothing, here for the cork item after a first read.
\<close>

theorem serialize_name_error:
  "snd (serialize cork_heap (fst (getitem cork_heap cork_item ''a''))) = Inl NameError"
  by (simp add: serialize_def cork_item_def cork_heap_def initial_heap_def Item_init_def
      ItemProperties_init_def getitem_def parse_data_def item_open_def cork_opener_def
      cork_parse_def cork_aliases_def alias_get_def dict_getitem_def dict_keys_def Let_def)

section \<open>Properties of \<^verbatim>\<open>_format_request\<close>\<close>

lemma of_char_digit_char:
  assumes "d < 10"
  shows "(of_char (digit_char d) :: nat) = 48 + d"
proof -
  have "d \<in> {0, 1, 2, 3, 4, 5, 6, 7, 8, 9}" using assms by auto
  then show ?thesis by (auto simp add: digit_char_def)
qed

text \<open>Reading the digits back gives the number: \<^verbatim>\<open>str\<close> is injective.\<close>

lemma str_nat_value: "foldl (\<lambda>a c. 10 * a + (of_char c - 48)) 0 (str_nat n) = n"
proof (induction n rule: str_nat.induct)
  case (1 n)
  show ?case
  proof (cases "n < 10")
    case True
    then show ?thesis by (simp add: str_nat.simps[of n] of_char_digit_char)
  next
    case False
    then show ?thesis using 1 by (simp add: str_nat.simps[of n] of_char_digit_char)
  qed
qed

lemma str_nat_inj:
  assumes "str_nat m = str_nat n"
  shows "m = n"
proof -
  have "m = foldl (\<lambda>a c. 10 * a + (of_char c - 48)) 0 (str_nat m)"
    by (simp only: str_nat_value)
  also have "\<dots> = foldl (\<lambda>a c. 10 * a + (of_char c - 48)) 0 (str_nat n)"
    by (simp only: assms)
  also have "\<dots> = n"
    by (rule str_nat_value)
  finally show ?thesis .
qed

lemma str_nat_small: "n < 10 \<Longrightarrow> str_nat n = [''0123456789'' ! n]"
  by (simp add: str_nat.simps[of n] digit_char_def)

lemma names_distinct: "distinct (map (\<lambda>i. ''name'' @ str_nat i) [m..<n])"
  by (auto simp add: distinct_map inj_on_def dest: str_nat_inj)

lemma update_fresh: "k \<notin> fst ` set d \<Longrightarrow> AList.update k v d = d @ [(k, v)]"
  by (induction d) auto

lemma dict_update_distinct:
  "distinct (map fst (d @ kvs)) \<Longrightarrow> dict_update d kvs = d @ kvs"
proof (induction kvs arbitrary: d)
  case Nil
  then show ?case by simp
next
  case (Cons kv kvs)
  obtain k v where kv: "kv = (k, v)" by (cases kv)
  have fresh: "k \<notin> fst ` set d" using Cons.prems kv by auto
  have "distinct (map fst ((d @ [(k, v)]) @ kvs))" using Cons.prems kv by simp
  then show ?case using Cons.IH[of "d @ [(k, v)]"] kv fresh by (simp add: update_fresh)
qed

lemma enumerate_named:
  "map (\<lambda>(i, v). (f i, v)) (enumerate n ps) = zip (map f [n..<n + length ps]) ps"
  by (simp add: enumerate_eq_zip zip_map1)

text \<open>
  Splitting at the markers and putting a numbered marker before every part but the first
  is the scan from the left that replaces each marker.
\<close>

lemma split_replace:
  "\<exists>p0 rest. split CHR ''?'' req = p0 # rest
     \<and> concat (p0 # map (\<lambda>(i, p). marker i @ p) (enumerate n rest)) = replace_markers marker n req"
proof (induction req arbitrary: n)
  case Nil
  then show ?case by simp
next
  case (Cons x xs)
  show ?case
  proof (cases "x = CHR ''?''")
    case True
    from Cons.IH[of "Suc n"] obtain p0 rest where
      "split CHR ''?'' xs = p0 # rest"
      "concat (p0 # map (\<lambda>(i, p). marker i @ p) (enumerate (Suc n) rest)) = replace_markers marker (Suc n) xs"
      by blast
    then show ?thesis using True by simp
  next
    case False
    from Cons.IH[of n] obtain p0 rest where
      "split CHR ''?'' xs = p0 # rest"
      "concat (p0 # map (\<lambda>(i, p). marker i @ p) (enumerate n rest)) = replace_markers marker n xs"
      by blast
    then show ?thesis using False by simp
  qed
qed

lemma enumerate_shift:
  "map (\<lambda>(i, p). g (i + 1) p) (enumerate n xs) = map (\<lambda>(i, p). g i p) (enumerate (Suc n) xs)"
  by (induction xs arbitrary: n) simp_all

lemma numeric_parts:
  "\<exists>new_parts. new_request_parts_numeric (split CHR ''?'' req) = Inr new_parts
      \<and> concat new_parts = replace_markers (\<lambda>i. '':'' @ str_nat i) 1 req"
proof -
  obtain p0 rest where s: "split CHR ''?'' req = p0 # rest"
      and c: "concat (p0 # map (\<lambda>(i, p). ('':'' @ str_nat i) @ p) (enumerate 1 rest))
                = replace_markers (\<lambda>i. '':'' @ str_nat i) 1 req"
    using split_replace[of req "\<lambda>i. '':'' @ str_nat i" 1] by blast
  have "map (\<lambda>(i, part). '':'' @ str_nat (i + 1) @ part) (enumerate 0 rest)
          = map (\<lambda>(i, p). ('':'' @ str_nat i) @ p) (enumerate 1 rest)"
    using enumerate_shift[of "\<lambda>i p. '':'' @ str_nat i @ p" 0 rest] by simp
  then show ?thesis using s c by (simp add: new_request_parts_numeric_def)
qed

lemma named_parts:
  "\<exists>new_parts. new_request_parts_named (split CHR ''?'' req) = Inr new_parts
      \<and> concat new_parts = replace_markers (\<lambda>i. '':name'' @ str_nat i) 0 req"
proof -
  obtain p0 rest where s: "split CHR ''?'' req = p0 # rest"
      and c: "concat (p0 # map (\<lambda>(i, p). ('':name'' @ str_nat i) @ p) (enumerate 0 rest))
                = replace_markers (\<lambda>i. '':name'' @ str_nat i) 0 req"
    using split_replace[of req "\<lambda>i. '':name'' @ str_nat i" 0] by blast
  have "map (\<lambda>(i, part). '':name'' @ str_nat i @ part) (enumerate 0 rest)
          = map (\<lambda>(i, p). ('':name'' @ str_nat i) @ p) (enumerate 0 rest)"
    by simp
  then show ?thesis using s c by (simp add: new_request_parts_named_def)
qed

lemma named_parameters:
  "dict_update [] (map (\<lambda>(i, v). (''name'' @ str_nat i, v)) (enumerate 0 ps))
     = zip (map (\<lambda>i. ''name'' @ str_nat i) [0..<length ps]) ps"
proof -
  have e: "map (\<lambda>(i, v). (''name'' @ str_nat i, v)) (enumerate 0 ps)
            = zip (map (\<lambda>i. ''name'' @ str_nat i) [0..<length ps]) ps"
    using enumerate_named[of "\<lambda>i. ''name'' @ str_nat i" 0 ps] by simp
  have "distinct (map fst (zip (map (\<lambda>i. ''name'' @ str_nat i) [0..<length ps]) ps))"
    using names_distinct[of 0 "length ps"] by simp
  then have "dict_update [] (zip (map (\<lambda>i. ''name'' @ str_nat i) [0..<length ps]) ps)
          = [] @ zip (map (\<lambda>i. ''name'' @ str_nat i) [0..<length ps]) ps"
    by (intro dict_update_distinct) simp
  then show ?thesis using e by simp
qed

lemma named_lookup:
  assumes "i < length ps"
  shows "map_of (zip (map (\<lambda>i. ''name'' @ str_nat i) [0..<length ps]) ps) (''name'' @ str_nat i)
           = Some (ps ! i)"
proof -
  have "map_of (zip (map (\<lambda>i. ''name'' @ str_nat i) [0..<length ps]) ps)
          (map (\<lambda>i. ''name'' @ str_nat i) [0..<length ps] ! i) = Some (ps ! i)"
    using assms names_distinct[of 0 "length ps"] by (intro map_of_zip_nth) simp_all
  then show ?thesis using assms by simp
qed

text \<open>
  C6. For every request and parameter list: under \<open>qmark\<close> both are returned unchanged; under
  \<open>numeric\<close> the i-th marker, counted from 1, becomes \<open>:i\<close> and the parameters are unchanged;
  under \<open>named\<close> the i-th marker, counted from 0, becomes \<open>:namei\<close> and the parameters become
  the dictionary that maps \<open>namei\<close> to the i-th parameter, for every parameter.
\<close>

theorem format_request_rewrites:
  "format_request ''qmark'' request ps = Inr (request, ParamList ps)
   \<and> format_request ''numeric'' request ps
       = Inr (replace_markers (\<lambda>i. '':'' @ str_nat i) 1 request, ParamList ps)
   \<and> format_request ''named'' request ps
       = Inr (replace_markers (\<lambda>i. '':name'' @ str_nat i) 0 request,
              ParamDict (zip (map (\<lambda>i. ''name'' @ str_nat i) [0..<length ps]) ps))
   \<and> (\<forall>i<length ps.
         map_of (zip (map (\<lambda>i. ''name'' @ str_nat i) [0..<length ps]) ps) (''name'' @ str_nat i)
           = Some (ps ! i))"
proof -
  have q: "format_request ''qmark'' request ps = Inr (request, ParamList ps)"
    by (simp add: format_request_def)
  have n: "format_request ''numeric'' request ps
       = Inr (replace_markers (\<lambda>i. '':'' @ str_nat i) 1 request, ParamList ps)"
    using numeric_parts[of request] by (auto simp add: format_request_def)
  have m: "format_request ''named'' request ps
       = Inr (replace_markers (\<lambda>i. '':name'' @ str_nat i) 0 request,
              ParamDict (zip (map (\<lambda>i. ''name'' @ str_nat i) [0..<length ps]) ps))"
    using named_parts[of request] named_parameters[of ps] by (auto simp add: format_request_def)
  show ?thesis using q n m named_lookup by blast
qed

theorem format_request_rewrites_witness:
  "format_request ''numeric'' ''SELECT * FROM t WHERE a=? AND b=?'' [PyInt 7, PyStr ''x'']
     = Inr (''SELECT * FROM t WHERE a=:1 AND b=:2'', ParamList [PyInt 7, PyStr ''x''])
   \<and> format_request ''named'' ''SELECT * FROM t WHERE a=? AND b=?'' [PyInt 7, PyStr ''x'']
     = Inr (''SELECT * FROM t WHERE a=:name0 AND b=:name1'',
            ParamDict [(''name0'', PyInt 7), (''name1'', PyStr ''x'')])
   \<and> (1::nat) < length [PyInt 7, PyStr ''x'']
   \<and> map_of [(''name0'', PyInt 7), (''name1'', PyStr ''x'')] ''name1'' = Some (PyStr ''x'')"
  using format_request_rewrites[of "''SELECT * FROM t WHERE a=? AND b=?''" "[PyInt 7, PyStr ''x'']"]
  by (simp add: str_nat_small upt_rec numeral_2_eq_2)

text \<open>The two styles of \<^verbatim>\<open>printf\<close> are refused.\<close>

lemma format_request_printf_styles:
  "format_request ''format'' request ps = Inl NotImplementedError
   \<and> format_request ''pyformat'' request ps = Inl NotImplementedError"
  by (simp add: format_request_def)

text \<open>
  C7. The claim: a style outside the five of DB-API fails with
  \<^verbatim>\<open>UnsupportedParameterStyle\<close>. On the code: the last branch does not raise; it
  evaluates \<^verbatim>\<open>UnsupportedParameterStyleError(style)\<close>, whose name is not in scope, so the
  call fails with \<^verbatim>\<open>NameError\<close>, here for the style \<open>oracle\<close>. The styles \<open>format\<close> and
  \<open>pyformat\<close> fail with \<^verbatim>\<open>NotImplementedError\<close>, as claimed.
\<close>

theorem format_request_unknown_style:
  "format_request ''oracle'' ''SELECT * FROM t WHERE a=?'' [PyInt 1] = Inl NameError"
  by (simp add: format_request_def)

section \<open>Properties of \<^verbatim>\<open>save\<close> and \<^verbatim>\<open>_storage_search\<close>\<close>

text \<open>\<^verbatim>\<open>save\<close> raises for every item, before it asks anything of the database.\<close>

lemma save_raises: "\<exists>it' e. save st conn s = (s\<lparr>subject := it'\<rparr>, Inl e)"
proof -
  obtain it' e where "serialize (store s) (subject s) = (it', Inl e)"
    using serialize_raises by blast
  then have "save st conn s = (s\<lparr>subject := it'\<rparr>, Inl e)"
    by (simp add: save_def st_serialize_def and_then_def Let_def)
  then show ?thesis by blast
qed

lemma save_calls_nothing: "calls (fst (save st conn s)) = calls s"
  using save_raises[of st conn s] by auto

text \<open>
  C4. The claim: \<^verbatim>\<open>save\<close> executes an \<^verbatim>\<open>UPDATE\<close>, then an \<^verbatim>\<open>INSERT\<close> when no row was
  affected, rolls back and raises \<^verbatim>\<open>ManyItemsUpdatedError\<close> when several were, and commits
  once on success. On the code: \<^verbatim>\<open>save\<close> calls \<^verbatim>\<open>item.serialize()\<close> first, which raises
  \<^verbatim>\<open>NameError\<close> (see C8); here, for the cork item and a driver that reports no affected
  row, \<^verbatim>\<open>save\<close> raises \<^verbatim>\<open>NameError\<close> and has executed, committed and rolled back nothing.
\<close>

theorem save_name_error:
  "save cork_storage cork_connection \<lparr>store = cork_heap, subject = cork_item, calls = []\<rparr>
     = (\<lparr>store = cork_heap, subject = cork_item, calls = []\<rparr>, Inl NameError)"
  by (simp add: save_def st_serialize_def and_then_def serialize_def dict_keys_def Let_def
      cork_item_def Item_init_def ItemProperties_init_def)

text \<open>
  \<^verbatim>\<open>_storage_search\<close> raises for every list of conditions: the first value its loop meets is
  the name of the last condition, a string, whose second character is no function.
\<close>

lemma search_loop_name_raises:
  "\<exists>e. search_loop st (PyStr name # conds) acc = Inl e"
proof (cases acc)
  case (fields request parameters remaining_conditions)
  show ?thesis
  proof (cases "operators_from_function st")
    case None
    then show ?thesis using fields by simp
  next
    case (Some tbl)
    show ?thesis
    proof (cases "1 < length name")
      case True
      then show ?thesis using fields Some by simp
    next
      case False
      then show ?thesis using fields Some by simp
    qed
  qed
qed

lemma storage_search_raises:
  "\<exists>e. storage_search st conn subclasses construct conditions = Inl e"
proof (cases "conditions = []")
  case True
  then show ?thesis by (simp add: storage_search_def)
next
  case False
  obtain name funct val where l: "last conditions = (name, funct, val)"
    by (cases "last conditions")
  obtain e where "search_loop st (PyStr name # [PyFunc funct, val])
       (''SELECT * FROM '' @ table st @ '' WHERE '', [], []) = Inl e"
    using search_loop_name_raises by blast
  then show ?thesis using False l
    by (simp add: storage_search_def tuple_items_def)
qed

text \<open>
  C5. The claim: \<^verbatim>\<open>search\<close> pushes the supported conditions but the last into the request
  and returns the items a filter of the whole table would. On the code: the loop runs over
  \<^verbatim>\<open>conditions[-1]\<close>, the components of the last condition, not over
  \<^verbatim>\<open>conditions[:-1]\<close>; for the single condition \<open>artist = muse\<close> its first step looks the
  character \<open>r\<close> up among the functions and raises \<^verbatim>\<open>KeyError\<close>. No request is built, no
  item returned.
\<close>

theorem storage_search_key_error:
  "storage_search cork_storage cork_connection cork_subclasses cork_construct
     [(''artist'', 1, PyStr ''muse'')] = Inl KeyError"
  by (simp add: storage_search_def tuple_items_def cork_storage_def)

end
